theory Spec2Isabelle
  imports Complex_Main
begin

section \<open>Cone optimisation: the individuals, their operators and the call of the loop\<close>

text \<open>
  The program (\<^verbatim>\<open>cones.py\<close>) searches cones \<^verbatim>\<open>[radius, height]\<close> with a genetic
  algorithm. What the file itself defines is small: the registration of the random
  individuals and of the operators, the crossover operator, the fitness function and
  \<^verbatim>\<open>main\<close>, which sets the parameters and hands everything to the library's
  \<^verbatim>\<open>eaMuPlusLambda\<close>. The ranking (\<^verbatim>\<open>selNSGA2\<close>), the variation scheme and the
  Pareto archive (\<^verbatim>\<open>ParetoFront\<close>) are the library's and are not in the sources: they
  stay parameters here. The fitness function computes the volume and the surface area
  in floating point (\<^verbatim>\<open>pi\<close>, \<^verbatim>\<open>h / 3\<close>, \<^verbatim>\<open>** 0.5\<close>); its values are read inside
  the library's generation step only and are not modelled.
\<close>

subsection \<open>Values, errors, the store\<close>

text \<open>
  An individual is a Python list of genes. The genes this program creates are
  unbounded integers (\<^verbatim>\<open>random.randint\<close>). An exception is the left value of a
  result.
\<close>

datatype py_error = IndexError | ValueError | LibraryError

type_synonym 'a result = "py_error + 'a"

type_synonym individual = "int list"

text \<open>
  \<^verbatim>\<open>crossover\<close> writes into the two lists it is given, so the lists live in a
  store and the function takes references: both arguments may be the same object.
\<close>

type_synonym ref = nat

type_synonym heap = "ref \<Rightarrow> individual"

definition and_then :: "'a result \<Rightarrow> ('a \<Rightarrow> 'b result) \<Rightarrow> 'b result" where
  "and_then m f = (case m of Inl e \<Rightarrow> Inl e | Inr x \<Rightarrow> f x)"

text \<open>\<^verbatim>\<open>ind[i]\<close> and \<^verbatim>\<open>ind[i] = v\<close> for a literal index \<^verbatim>\<open>i\<close> (0 or 1).\<close>

definition getitem :: "heap \<Rightarrow> ref \<Rightarrow> nat \<Rightarrow> int result" where
  "getitem s r i = (if i < length (s r) then Inr (s r ! i) else Inl IndexError)"

definition setitem :: "heap \<Rightarrow> ref \<Rightarrow> nat \<Rightarrow> int \<Rightarrow> heap result" where
  "setitem s r i v =
     (if i < length (s r) then Inr (s(r := (s r)[i := v])) else Inl IndexError)"

subsection \<open>The crossover operator\<close>

text \<open>
  \<^verbatim>\<open>
  def crossover(ind1, ind2):
      r1 = ind1[0]
      h1 = ind1[1]
      ind1[0] = ind2[0]
      ind2[0] = r1
      ind1[1] = ind2[1]
      ind2[0] = h1
      return ind1, ind2
  \<close>
  Statement by statement; the last assignment writes index 0 again.
\<close>

definition crossover :: "heap \<Rightarrow> ref \<Rightarrow> ref \<Rightarrow> (heap \<times> ref \<times> ref) result" where
  "crossover s ind1 ind2 =
     and_then (getitem s ind1 0) (\<lambda>r1.
     and_then (getitem s ind1 1) (\<lambda>h1.
     and_then (getitem s ind2 0) (\<lambda>v.
     and_then (setitem s ind1 0 v) (\<lambda>s.
     and_then (setitem s ind2 0 r1) (\<lambda>s.
     and_then (getitem s ind2 1) (\<lambda>v.
     and_then (setitem s ind1 1 v) (\<lambda>s.
     and_then (setitem s ind2 0 h1) (\<lambda>s.
     Inr (s, ind1, ind2)))))))))"

text \<open>The two children of a call, read back from the store.\<close>

definition children :: "(heap \<times> ref \<times> ref) result \<Rightarrow> (individual \<times> individual) option" where
  "children res = (case res of Inl e \<Rightarrow> None | Inr (s, c1, c2) \<Rightarrow> Some (s c1, s c2))"

subsection \<open>The random generator and the registered constructors\<close>

text \<open>
  The program draws from the process-wide generator of the \<^verbatim>\<open>random\<close> module and
  never seeds it. The generator's state is modelled by the sequence of raw numbers it
  will produce from now on; a draw reads the first and leaves the rest.
\<close>

type_synonym rng = "nat \<Rightarrow> nat"

definition advance :: "rng \<Rightarrow> rng" where
  "advance g = (\<lambda>i. g (Suc i))"

text \<open>
  Modelled from the spec: \<^verbatim>\<open>random.randint(a, b)\<close> of the standard library, absent
  from the sources, a value \<open>N\<close> with \<open>a \<le> N \<le> b\<close> ("drawn from the configured
  bounds, discrete uniform in [low, high]"); an empty range raises \<^verbatim>\<open>ValueError\<close>.
  Here one raw number is reduced into the range. How the library really maps raw
  numbers to the value (it may discard some and draw again) is not modelled: nothing
  below relies on more than the range.
\<close>

definition randint :: "int \<Rightarrow> int \<Rightarrow> rng \<Rightarrow> (int \<times> rng) result" where
  "randint a b g =
     (if b < a then Inl ValueError
      else Inr (a + int (g 0 mod nat (b - a + 1)), advance g))"

text \<open>
  Modelled from the spec: \<^verbatim>\<open>random.random()\<close>, a probability in \<open>[0, 1)\<close>
  against which \<^verbatim>\<open>indpb\<close> is compared.
\<close>

definition random_unit :: "rng \<Rightarrow> real \<times> rng" where
  "random_unit g = (real (g 0 mod 2 ^ 53) / 2 ^ 53, advance g)"

definition MAX_ATTRIBUTE_SIZE :: int where
  "MAX_ATTRIBUTE_SIZE = 25"

text \<open>
  Modelled from the spec: the library's \<^verbatim>\<open>tools.initRepeat(container, func, n)\<close>,
  absent from the sources: \<^verbatim>\<open>func\<close> called \<^verbatim>\<open>n\<close> times, the results collected in
  order ("sample \<mu> individuals").
\<close>

fun initRepeat :: "(rng \<Rightarrow> ('a \<times> rng) result) \<Rightarrow> nat \<Rightarrow> rng \<Rightarrow> ('a list \<times> rng) result" where
  "initRepeat func 0 g = Inr ([], g)"
| "initRepeat func (Suc n) g =
     (case func g of
        Inl e \<Rightarrow> Inl e
      | Inr (x, g1) \<Rightarrow>
          (case initRepeat func n g1 of
             Inl e \<Rightarrow> Inl e
           | Inr (xs, g2) \<Rightarrow> Inr (x # xs, g2)))"

text \<open>
  \<^verbatim>\<open>
  toolbox.register("attr_item", random.randint, 1, MAX_ATTRIBUTE_SIZE)
  toolbox.register("individual", tools.initRepeat, creator.Individual, toolbox.attr_item, 2)
  toolbox.register("population", tools.initRepeat, list, toolbox.individual)
  \<close>
  \<^verbatim>\<open>population\<close> is called with \<^verbatim>\<open>n=MU\<close>; \<^verbatim>\<open>range(n)\<close> is empty for \<open>n \<le> 0\<close>.
\<close>

definition attr_item :: "rng \<Rightarrow> (int \<times> rng) result" where
  "attr_item g = randint 1 MAX_ATTRIBUTE_SIZE g"

definition individual :: "rng \<Rightarrow> (individual \<times> rng) result" where
  "individual g = initRepeat attr_item 2 g"

definition population :: "int \<Rightarrow> rng \<Rightarrow> (individual list \<times> rng) result" where
  "population n g = initRepeat individual (nat n) g"

subsection \<open>The registered mutation\<close>

text \<open>
  Modelled from the spec: the library's \<^verbatim>\<open>tools.mutUniformInt\<close>, absent from the
  sources: "for each decision-vector component, with independent probability indpb,
  replace it with a value drawn from the configured bounds".
\<close>

fun mutUniformInt :: "individual \<Rightarrow> int \<Rightarrow> int \<Rightarrow> real \<Rightarrow> rng \<Rightarrow> (individual \<times> rng) result" where
  "mutUniformInt [] low up indpb g = Inr ([], g)"
| "mutUniformInt (x # xs) low up indpb g =
     (case random_unit g of
        (u, g1) \<Rightarrow>
          (if u < indpb then
             (case randint low up g1 of
                Inl e \<Rightarrow> Inl e
              | Inr (v, g2) \<Rightarrow>
                  (case mutUniformInt xs low up indpb g2 of
                     Inl e \<Rightarrow> Inl e
                   | Inr (ys, g3) \<Rightarrow> Inr (v # ys, g3)))
           else
             (case mutUniformInt xs low up indpb g1 of
                Inl e \<Rightarrow> Inl e
              | Inr (ys, g3) \<Rightarrow> Inr (x # ys, g3))))"

text \<open>
  \<^verbatim>\<open>toolbox.register("mutate", tools.mutUniformInt, low=1, up=MAX_ATTRIBUTE_SIZE, indpb=0.05)\<close>
\<close>

definition mutate :: "individual \<Rightarrow> rng \<Rightarrow> (individual \<times> rng) result" where
  "mutate ind g = mutUniformInt ind 1 MAX_ATTRIBUTE_SIZE 0.05 g"

subsection \<open>main\<close>

text \<open>
  The arguments of \<^verbatim>\<open>algorithms.eaMuPlusLambda\<close> that are numbers. The decimal
  literals are the source's.
\<close>

record ea_args =
  mu :: int
  lambda :: int
  cxpb :: real
  mutpb :: real
  ngen :: int

text \<open>
  The state of a run: the population, the Pareto archive (\<^verbatim>\<open>hof\<close>) and the
  generator.
\<close>

type_synonym run_state = "individual list \<times> individual list \<times> rng"

text \<open>
  \<^verbatim>\<open>
  toolbox.register("evaluate", evaluate_fitness)
  toolbox.register("mate", crossover)
  toolbox.register("mutate", tools.mutUniformInt, low=1, up=MAX_ATTRIBUTE_SIZE, indpb=0.05)
  toolbox.register("select", tools.selNSGA2)
  \<close>
  The toolbox that \<^verbatim>\<open>main\<close> fills and hands to the loop. Of its four entries the
  two variation operators are modelled; the fitness function (floating point) and the
  selection (the library's) act inside the generation step.
\<close>

record toolbox =
  tb_mate :: "heap \<Rightarrow> ref \<Rightarrow> ref \<Rightarrow> (heap \<times> ref \<times> ref) result"
  tb_mutate :: "individual \<Rightarrow> rng \<Rightarrow> (individual \<times> rng) result"

definition registered :: toolbox where
  "registered = \<lparr>tb_mate = crossover, tb_mutate = mutate\<rparr>"

text \<open>
  What the library does inside the loop is not in the sources; it is a parameter:
  \<open>hof_update\<close> is \<^verbatim>\<open>halloffame.update(population)\<close>, from the archive and a
  population to the new archive, and \<open>generation\<close> is one generation (variation,
  evaluation, ranking, truncation, archive update, statistics) for the toolbox and the
  arguments it is handed.
\<close>

record library =
  hof_update :: "individual list \<Rightarrow> individual list \<Rightarrow> individual list"
  generation :: "toolbox \<Rightarrow> ea_args \<Rightarrow> run_state \<Rightarrow> run_state result"

fun generations :: "(run_state \<Rightarrow> run_state result) \<Rightarrow> nat \<Rightarrow> run_state \<Rightarrow> run_state result" where
  "generations step 0 s = Inr s"
| "generations step (Suc n) s =
     (case step s of Inl e \<Rightarrow> Inl e | Inr s1 \<Rightarrow> generations step n s1)"

text \<open>
  Modelled from the spec: the library's \<^verbatim>\<open>eaMuPlusLambda\<close>, absent from the sources,
  as far as it is fixed without the library's code: the initial population enters the
  archive, then the generation step runs \<^verbatim>\<open>ngen\<close> times ("terminate after a fixed
  number of generations"). The population and the archive are updated in place.
  The statistics that \<^verbatim>\<open>main\<close> registers are compiled for the initial population
  first; among them are \<^verbatim>\<open>numpy.min\<close> and \<^verbatim>\<open>numpy.max\<close>, which raise
  \<^verbatim>\<open>ValueError\<close> on an empty population.
\<close>

definition eaMuPlusLambda ::
  "library \<Rightarrow> individual list \<Rightarrow> toolbox \<Rightarrow> ea_args \<Rightarrow> individual list \<Rightarrow> rng
   \<Rightarrow> run_state result" where
  "eaMuPlusLambda lib pop tb args hof g =
     (if pop = [] then Inl ValueError
      else generations (generation lib tb args) (nat (ngen args))
             (pop, hof_update lib hof pop, g))"

text \<open>
  \<^verbatim>\<open>
  def main(population_size, max_generations):
      toolbox.register("evaluate", evaluate_fitness)
      toolbox.register("mate", crossover)
      toolbox.register("mutate", tools.mutUniformInt, low=1, up=MAX_ATTRIBUTE_SIZE, indpb=0.05)
      toolbox.register("select", tools.selNSGA2)

      NGEN = max_generations
      MU = population_size
      LAMBDA = 100
      CXPB = 0.7
      MUTPB = 0.2

      pop = toolbox.population(n=MU)
      hof = tools.ParetoFront()
      stats = tools.Statistics(lambda ind: ind.fitness.values)
      stats.register("avg", numpy.mean, axis=0)
      stats.register("std", numpy.std, axis=0)
      stats.register("min", numpy.min, axis=0)
      stats.register("max", numpy.max, axis=0)

      algorithms.eaMuPlusLambda(pop, toolbox, MU, LAMBDA, CXPB, MUTPB, NGEN, stats,
                                halloffame=hof)
      return pop, stats, hof
  \<close>
  What is returned here is the population and the archive; the values of the
  statistics are floating point. The generator is the state \<^verbatim>\<open>main\<close> finds when it
  is called: it is no parameter of the Python function.
\<close>

definition returned :: "run_state result \<Rightarrow> (individual list \<times> individual list) result" where
  "returned r = (case r of Inl e \<Rightarrow> Inl e | Inr (pop, hof, g) \<Rightarrow> Inr (pop, hof))"

definition main ::
  "library \<Rightarrow> int \<Rightarrow> int \<Rightarrow> rng \<Rightarrow> (individual list \<times> individual list) result" where
  "main lib population_size max_generations g =
     (let NGEN = max_generations;
          MU = population_size;
          LAMBDA = 100;
          CXPB = 0.7;
          MUTPB = 0.2
      in case population MU g of
           Inl e \<Rightarrow> Inl e
         | Inr (pop, g1) \<Rightarrow>
             returned (eaMuPlusLambda lib pop registered
               \<lparr>mu = MU, lambda = LAMBDA, cxpb = CXPB, mutpb = MUTPB, ngen = NGEN\<rparr> [] g1))"

subsection \<open>Bounds, and the individuals a run can hold\<close>

text \<open>Every gene within \<open>[1, MAX_ATTRIBUTE_SIZE]\<close>.\<close>

definition in_bounds :: "individual \<Rightarrow> bool" where
  "in_bounds ind = list_all (\<lambda>x. 1 \<le> x \<and> x \<le> MAX_ATTRIBUTE_SIZE) ind"

text \<open>
  The individuals that can be in a population: the ones \<^verbatim>\<open>toolbox.population\<close>
  creates, the two results of \<^verbatim>\<open>crossover\<close> on individuals that arose before
  (in any store, also on one object twice), and the result of the registered mutation
  on one that arose before. Cloning and selection only copy individuals.
\<close>

inductive arises :: "individual \<Rightarrow> bool" where
  created: "population n g = Inr (pop, g1) \<Longrightarrow> ind \<in> set pop \<Longrightarrow> arises ind"
| crossed_first:
    "arises (s a) \<Longrightarrow> arises (s b) \<Longrightarrow> crossover s a b = Inr (s1, c1, c2) \<Longrightarrow> arises (s1 c1)"
| crossed_second:
    "arises (s a) \<Longrightarrow> arises (s b) \<Longrightarrow> crossover s a b = Inr (s1, c1, c2) \<Longrightarrow> arises (s1 c2)"
| mutated: "arises ind \<Longrightarrow> mutate ind g = Inr (ind1, g1) \<Longrightarrow> arises ind1"

section \<open>Crossover\<close>

lemma crossover_distinct:
  assumes "a \<noteq> b" and "s a = r1 # h1 # t1" and "s b = r2 # h2 # t2"
  shows "children (crossover s a b) = Some (r2 # h2 # t1, h1 # h2 # t2)"
  using assms by (simp add: crossover_def children_def and_then_def getitem_def setitem_def)

text \<open>
  C1. The claim: crossover on \<open>[r1, h1]\<close> and \<open>[r2, h2]\<close> returns \<open>[r2, h2]\<close> and
  \<open>[r1, h1]\<close>, so that no value is lost. On the parents \<open>[1, 2]\<close> and \<open>[3, 4]\<close> the
  code returns \<open>[3, 4]\<close> and \<open>[2, 4]\<close>: the last assignment overwrites the radius of
  the second child with \<open>h1\<close>, its height is never written, and the value \<open>r1 = 1\<close>
  is in neither child.
\<close>

theorem crossover_overwrites_radius:
  "children (crossover ((\<lambda>r. [])(0 := [1, 2], Suc 0 := [3, 4])) 0 (Suc 0)) = Some ([3, 4], [2, 4])
   \<and> 1 \<notin> set [3, 4] \<union> set [2, 4::int]"
  by (simp add: crossover_def children_def and_then_def getitem_def setitem_def)

section \<open>The parameters of the loop\<close>

text \<open>The loop as an iteration: one more generation is one more step at the end.\<close>

lemma generations_Suc:
  "generations step (Suc n) s = and_then (generations step n s) step"
proof (induction n arbitrary: s)
  case 0
  show ?case by (simp add: and_then_def split: sum.split)
next
  case (Suc n)
  show ?case
  proof (cases "step s")
    case (Inl e)
    then show ?thesis by (simp add: and_then_def)
  next
    case (Inr s1)
    with Suc.IH [of s1] show ?thesis by simp
  qed
qed

lemma generations_fold:
  "generations step n s = fold (\<lambda>k r. and_then r step) [0..<n] (Inr s)"
proof (induction n)
  case 0
  show ?case by simp
next
  case (Suc n)
  have "generations step (Suc n) s = and_then (generations step n s) step"
    by (rule generations_Suc)
  also have "\<dots> = and_then (fold (\<lambda>k r. and_then r step) [0..<n] (Inr s)) step"
    by (simp only: Suc.IH)
  also have "\<dots> = fold (\<lambda>k r. and_then r step) [0..<Suc n] (Inr s)"
    by simp
  finally show ?case .
qed

text \<open>
  C10. Whatever the arguments of \<^verbatim>\<open>main\<close>, every generation of the run is the
  library's step with 100 offspring, crossover probability 0.7 and mutation probability
  0.2, on the toolbox whose mutation changes each gene with probability 0.05 (within 1
  and 25) and whose mating is \<^verbatim>\<open>crossover\<close>; the step runs once per generation, as
  many times as the second argument says, on a population of the size the first
  argument says. The population size and the number of generations are the only values
  that come from the caller.
\<close>

theorem main_parameters:
  "main lib population_size max_generations g =
     (case population population_size g of
        Inl e \<Rightarrow> Inl e
      | Inr (pop, g1) \<Rightarrow>
          if pop = [] then Inl ValueError
          else returned
            (fold (\<lambda>k r. and_then r
                     (generation lib
                        \<lparr>tb_mate = crossover,
                         tb_mutate = (\<lambda>ind. mutUniformInt ind 1 25 0.05)\<rparr>
                        \<lparr>mu = population_size, lambda = 100, cxpb = 0.7, mutpb = 0.2,
                         ngen = max_generations\<rparr>))
               [0..<nat max_generations]
               (Inr (pop, hof_update lib [] pop, g1))))"
proof -
  have tb: "registered =
      \<lparr>tb_mate = crossover, tb_mutate = (\<lambda>ind. mutUniformInt ind 1 25 0.05)\<rparr>"
    by (simp add: registered_def mutate_def MAX_ATTRIBUTE_SIZE_def fun_eq_iff)
  show ?thesis
    unfolding main_def Let_def eaMuPlusLambda_def generations_fold tb
    by (simp add: returned_def split: sum.split)
qed

text \<open>
  A library that writes what it is handed into the population: with two generations,
  two individuals \<open>[100, 1]\<close> are appended, one per generation.
\<close>

theorem main_parameters_witness:
  "main \<lparr>hof_update = (\<lambda>hof pop. hof),
         generation = (\<lambda>tb args (pop, hof, g).
           Inr (pop @ [[lambda args, if cxpb args = 0.7 \<and> mutpb args = 0.2 then 1 else 0]],
                hof, g))\<rparr> 2 2 (\<lambda>i. 0)
   = Inr ([[1, 1], [1, 1], [100, 1], [100, 1]], [])"
proof -
  have p: "\<exists>g1. population 2 (\<lambda>i. 0) = Inr ([[1, 1], [1, 1]], g1)"
    by (simp add: population_def individual_def attr_item_def randint_def advance_def
        MAX_ATTRIBUTE_SIZE_def numeral_2_eq_2)
  then obtain g1 where "population 2 (\<lambda>i. 0) = Inr ([[1, 1], [1, 1]], g1)" ..
  then show ?thesis
    by (simp add: main_parameters and_then_def returned_def numeral_2_eq_2)
qed

section \<open>Bounds\<close>

lemma randint_range: "randint a b g = Inr (v, g1) \<Longrightarrow> a \<le> v \<and> v \<le> b"
proof -
  assume r: "randint a b g = Inr (v, g1)"
  then have ab: "a \<le> b" and v: "v = a + int (g 0 mod nat (b - a + 1))"
    by (auto simp: randint_def split: if_splits)
  from ab have "0 < nat (b - a + 1)" by simp
  then have "g 0 mod nat (b - a + 1) < nat (b - a + 1)" by (rule mod_less_divisor)
  with ab have "int (g 0 mod nat (b - a + 1)) < b - a + 1" by linarith
  with v show ?thesis by simp
qed

lemma initRepeat_all:
  assumes "\<And>g x g1. func g = Inr (x, g1) \<Longrightarrow> P x"
  shows "initRepeat func n g = Inr (xs, g2) \<Longrightarrow> list_all P xs"
proof (induction n arbitrary: g xs g2)
  case 0
  then show ?case by simp
next
  case (Suc n)
  then show ?case
    using assms by (fastforce split: sum.splits)
qed

lemma initRepeat_length: "initRepeat func n g = Inr (xs, g2) \<Longrightarrow> length xs = n"
  by (induction n arbitrary: g xs g2) (auto split: sum.splits)

lemma attr_item_range: "attr_item g = Inr (x, g1) \<Longrightarrow> 1 \<le> x \<and> x \<le> MAX_ATTRIBUTE_SIZE"
  unfolding attr_item_def by (rule randint_range)

lemma individual_in_bounds: "individual g = Inr (ind, g1) \<Longrightarrow> in_bounds ind"
  unfolding individual_def in_bounds_def
  by (rule initRepeat_all [where func = attr_item]) (auto dest: attr_item_range)

lemma population_in_bounds: "population n g = Inr (pop, g1) \<Longrightarrow> list_all in_bounds pop"
  unfolding population_def
  by (rule initRepeat_all [where func = individual]) (auto dest: individual_in_bounds)

lemma getitem_in_bounds:
  "in_bounds (s r) \<Longrightarrow> getitem s r i = Inr v \<Longrightarrow> 1 \<le> v \<and> v \<le> MAX_ATTRIBUTE_SIZE"
  by (auto simp: getitem_def in_bounds_def list_all_length split: if_splits)

lemma setitem_in_bounds:
  "setitem s r i v = Inr s1 \<Longrightarrow> 1 \<le> v \<and> v \<le> MAX_ATTRIBUTE_SIZE \<Longrightarrow> in_bounds (s q)
   \<Longrightarrow> in_bounds (s1 q)"
  by (auto simp: setitem_def in_bounds_def list_all_length nth_list_update split: if_splits)

lemma and_then_Inr: "and_then m f = Inr y \<longleftrightarrow> (\<exists>x. m = Inr x \<and> f x = Inr y)"
  by (cases m) (simp_all add: and_then_def)

lemma crossover_in_bounds:
  assumes a: "in_bounds (s a)" and b: "in_bounds (s b)"
    and c: "crossover s a b = Inr (s1, c1, c2)"
  shows "in_bounds (s1 c1) \<and> in_bounds (s1 c2)"
proof -
  from c obtain r1 h1 v1 t1 t2 v2 t3 where
    g1: "getitem s a 0 = Inr r1" and g2: "getitem s a 1 = Inr h1" and
    g3: "getitem s b 0 = Inr v1" and u1: "setitem s a 0 v1 = Inr t1" and
    u2: "setitem t1 b 0 r1 = Inr t2" and g4: "getitem t2 b 1 = Inr v2" and
    u3: "setitem t2 a 1 v2 = Inr t3" and u4: "setitem t3 b 0 h1 = Inr s1" and
    cs: "c1 = a" "c2 = b"
    unfolding crossover_def and_then_Inr by auto
  note r1 = getitem_in_bounds [OF a g1] and h1 = getitem_in_bounds [OF a g2]
    and v1 = getitem_in_bounds [OF b g3]
  have t1: "in_bounds (t1 q)" if "q = a \<or> q = b" for q
    using that a b setitem_in_bounds [OF u1 v1] by auto
  have t2: "in_bounds (t2 q)" if "q = a \<or> q = b" for q
    using that t1 setitem_in_bounds [OF u2 r1] by auto
  have v2: "1 \<le> v2 \<and> v2 \<le> MAX_ATTRIBUTE_SIZE"
    using getitem_in_bounds [OF _ g4] t2 by auto
  have t3: "in_bounds (t3 q)" if "q = a \<or> q = b" for q
    using that t2 setitem_in_bounds [OF u3 v2] by auto
  have "in_bounds (s1 q)" if "q = a \<or> q = b" for q
    using that t3 setitem_in_bounds [OF u4 h1] by auto
  with cs show ?thesis by simp
qed

lemma mutUniformInt_range:
  "list_all (\<lambda>x. low \<le> x \<and> x \<le> up) ind \<Longrightarrow> mutUniformInt ind low up p g = Inr (ind1, g1)
   \<Longrightarrow> list_all (\<lambda>x. low \<le> x \<and> x \<le> up) ind1"
proof (induction ind arbitrary: g ind1 g1)
  case Nil
  then show ?case by simp
next
  case (Cons x xs)
  then show ?case
    by (auto split: prod.splits if_splits sum.splits dest: randint_range)
qed

lemma mutate_in_bounds: "in_bounds ind \<Longrightarrow> mutate ind g = Inr (ind1, g1) \<Longrightarrow> in_bounds ind1"
  unfolding in_bounds_def mutate_def by (rule mutUniformInt_range)

lemma arises_in_bounds: "arises ind \<Longrightarrow> in_bounds ind"
proof (induction rule: arises.induct)
  case (created n g pop g1 ind)
  then show ?case using population_in_bounds by (auto simp: list_all_iff)
next
  case (crossed_first s a b s1 c1 c2)
  then show ?case using crossover_in_bounds by blast
next
  case (crossed_second s a b s1 c1 c2)
  then show ?case using crossover_in_bounds by blast
next
  case (mutated ind g ind1 g1)
  then show ?case using mutate_in_bounds by blast
qed

text \<open>
  C5. Every gene of every individual that can be in a population, in any generation,
  is within \<open>[1, 25]\<close>: after the initialisation, after crossover and after mutation.
\<close>

theorem bounds_closed: "arises ind \<Longrightarrow> x \<in> set ind \<Longrightarrow> 1 \<le> x \<and> x \<le> 25"
  using arises_in_bounds [of ind]
  by (simp add: in_bounds_def MAX_ATTRIBUTE_SIZE_def list_all_iff)

theorem bounds_closed_witness:
  "arises [1, 1] \<and> (1::int) \<in> set [1, 1] \<and> 1 \<le> (1::int) \<and> (1::int) \<le> 25"
proof -
  define s :: heap where "s = (\<lambda>r. [])(0 := [1, 2], Suc 0 := [3, 4])"
  have "\<exists>g1. population 2 (\<lambda>i. i) = Inr ([[1, 2], [3, 4]], g1)"
    by (simp add: population_def individual_def attr_item_def randint_def advance_def
        MAX_ATTRIBUTE_SIZE_def numeral_2_eq_2)
  then obtain g1 where p: "population 2 (\<lambda>i. i) = Inr ([[1, 2], [3, 4]], g1)" ..
  have a: "arises (s 0)" and b: "arises (s (Suc 0))"
    using arises.created [OF p] by (simp_all add: s_def)
  have "children (crossover s 0 (Suc 0)) = Some ([3, 4], [2, 4])"
    by (simp add: s_def crossover_def children_def and_then_def getitem_def setitem_def)
  then obtain s1 c1 c2 where c: "crossover s 0 (Suc 0) = Inr (s1, c1, c2)" and "s1 c2 = [2, 4]"
    by (auto simp: children_def split: sum.splits)
  with arises.crossed_second [OF a b c] have d: "arises [2, 4]" by simp
  have "\<exists>g2. mutate [2, 4] (\<lambda>i. 0) = Inr ([1, 1], g2)"
    by (simp add: mutate_def random_unit_def randint_def advance_def MAX_ATTRIBUTE_SIZE_def)
  then obtain g2 where m: "mutate [2, 4] (\<lambda>i. 0) = Inr ([1, 1], g2)" ..
  have e: "arises [1, 1]" by (rule arises.mutated [OF d m])
  from e bounds_closed [OF e, of 1] show ?thesis by simp
qed

end
